theory Spec2Isabelle
  imports Main "HOL-Library.Word"
begin

section \<open>Memory model\<close>

text \<open>
  The manifest parser of \<^verbatim>\<open>security/keystore/appauth/manifest_parser.c\<close> works on raw
  pointers into one buffer, the manifest blob. The blob is a list of bytes; a pointer
  into it is an offset from its first byte, \<open>None\<close> being the C value \<^verbatim>\<open>NULL\<close>. The C
  functions take no length: a read at an offset that the blob does not have is a read
  outside the blob, which the model reports as the fault \<open>OutOfBounds\<close> instead of
  returning some byte. A write through an unchecked \<^verbatim>\<open>NULL\<close> pointer is the fault
  \<open>NullDeref\<close>.
\<close>

type_synonym u8 = "8 word"
type_synonym u16 = "16 word"
type_synonym u32 = "32 word"
type_synonym size_t = "64 word"
type_synonym ptr = "nat option"

datatype fault = OutOfBounds | NullDeref

text \<open>A pointer-valued result of the kernel: \<^verbatim>\<open>NULL\<close>, \<^verbatim>\<open>ERR_PTR(e)\<close> or a real pointer.\<close>

datatype 'a errptr = NULL | ERR_PTR int | PTR 'a

definition EFAULT :: int where
  "EFAULT = 14"

definition rd8 :: "u8 list \<Rightarrow> nat \<Rightarrow> fault + u8" where
  "rd8 mem p = (if p < length mem then Inr (mem ! p) else Inl OutOfBounds)"

text \<open>Packed multi-byte fields are read little-endian, as on the Intel targets of the driver.\<close>

definition rd16 :: "u8 list \<Rightarrow> nat \<Rightarrow> fault + u16" where
  "rd16 mem p =
     (if p + 1 < length mem
      then Inr (of_nat (unat (mem ! p) + 256 * unat (mem ! (p + 1))))
      else Inl OutOfBounds)"

definition rd32 :: "u8 list \<Rightarrow> nat \<Rightarrow> fault + u32" where
  "rd32 mem p =
     (if p + 3 < length mem
      then Inr (of_nat (unat (mem ! p) + 256 * unat (mem ! (p + 1))
                 + 65536 * unat (mem ! (p + 2)) + 16777216 * unat (mem ! (p + 3))))
      else Inl OutOfBounds)"

text \<open>Sequencing of reads: the first fault ends the call.\<close>

definition and_then :: "fault + 'a \<Rightarrow> ('a \<Rightarrow> fault + 'b) \<Rightarrow> fault + 'b" where
  "and_then m f = (case m of Inl e \<Rightarrow> Inl e | Inr x \<Rightarrow> f x)"

text \<open>\<^verbatim>\<open>strlen\<close>: the number of bytes before the first NUL; it runs off the blob when there is none.\<close>

fun first_nul :: "u8 list \<Rightarrow> nat option" where
  "first_nul [] = None"
| "first_nul (b # bs) = (if b = 0 then Some 0 else map_option Suc (first_nul bs))"

definition strlen :: "u8 list \<Rightarrow> nat \<Rightarrow> fault + nat" where
  "strlen mem p = (case first_nul (drop p mem) of None \<Rightarrow> Inl OutOfBounds | Some n \<Rightarrow> Inr n)"

section \<open>The manifest parser\<close>

definition MAX_CHUNKS :: nat where
  "MAX_CHUNKS = 10"

definition digest_len :: "u8 list" where
  "digest_len = [20, 28, 32, 48, 64]"

text \<open>
  \<^verbatim>\<open>struct mf_envelope { u8 version; u16 len; u8 data[]; } __packed\<close> and
  \<^verbatim>\<open>struct mf_chunk { u8 type; u16 len; u8 data[]; } __packed\<close>: the field offsets.
\<close>

definition env_version :: "u8 list \<Rightarrow> nat \<Rightarrow> fault + u8" where
  "env_version mem env = rd8 mem env"

definition env_len :: "u8 list \<Rightarrow> nat \<Rightarrow> fault + u16" where
  "env_len mem env = rd16 mem (env + 1)"

definition env_data :: "nat \<Rightarrow> nat" where
  "env_data env = env + 3"

definition chunk_type :: "u8 list \<Rightarrow> nat \<Rightarrow> fault + u8" where
  "chunk_type mem chunk = rd8 mem chunk"

definition chunk_len :: "u8 list \<Rightarrow> nat \<Rightarrow> fault + u16" where
  "chunk_len mem chunk = rd16 mem (chunk + 1)"

definition chunk_data :: "nat \<Rightarrow> nat" where
  "chunk_data chunk = chunk + 3"

text \<open>
  The scan of \<^verbatim>\<open>mf_get_chunk\<close>. \<open>i\<close> and \<open>pos\<close> are \<^verbatim>\<open>uint16_t\<close>; \<open>i\<close> never passes
  \<open>MAX_CHUNKS\<close>, \<open>pos\<close> wraps on \<^verbatim>\<open>pos += chunk->len + 3\<close>. The bound test
  \<^verbatim>\<open>pos + chunk->len + 3 <= env->len + 1\<close> is computed in \<^verbatim>\<open>int\<close> and cannot wrap.
\<close>

function mf_get_chunk_scan :: "u8 list \<Rightarrow> nat \<Rightarrow> u16 \<Rightarrow> u8 \<Rightarrow> nat \<Rightarrow> u16 \<Rightarrow> fault + ptr" where
  "mf_get_chunk_scan mem env elen ctype i pos =
     (if pos < elen \<and> i < MAX_CHUNKS then
        (case chunk_type mem (env_data env + unat pos) of
           Inl e \<Rightarrow> Inl e
         | Inr ty \<Rightarrow>
            (case chunk_len mem (env_data env + unat pos) of
               Inl e \<Rightarrow> Inl e
             | Inr clen \<Rightarrow>
                 if ty = ctype then
                   (if unat pos + unat clen + 3 \<le> unat elen + 1
                    then Inr (Some (env_data env + unat pos))
                    else Inr None)
                 else mf_get_chunk_scan mem env elen ctype (i + 1) (pos + clen + 3)))
      else Inr None)"
  by pat_completeness auto
termination
  by (relation "measure (\<lambda>(mem, env, elen, ctype, i, pos). MAX_CHUNKS - i)") auto

declare mf_get_chunk_scan.simps [simp del]

definition mf_get_chunk :: "u8 list \<Rightarrow> ptr \<Rightarrow> u8 \<Rightarrow> fault + ptr" where
  "mf_get_chunk mem mf ctype =
     (case mf of
        None \<Rightarrow> Inr None
      | Some env \<Rightarrow> and_then (env_len mem env) (\<lambda>elen. mf_get_chunk_scan mem env elen ctype 0 0))"

text \<open>
  \<^verbatim>\<open>mf_get_chunk_data\<close> returns the payload pointer and what it stored in \<^verbatim>\<open>*len\<close>
  (\<open>None\<close> when the \<^verbatim>\<open>len\<close> argument is \<^verbatim>\<open>NULL\<close> and nothing is stored).
\<close>

definition mf_get_chunk_data :: "u8 list \<Rightarrow> ptr \<Rightarrow> u8 \<Rightarrow> bool \<Rightarrow> fault + (ptr \<times> size_t option)" where
  "mf_get_chunk_data mem mf ctype len_given =
     and_then (mf_get_chunk mem mf ctype) (\<lambda>chunk.
       if len_given then
         (case chunk of
            None \<Rightarrow> Inr (None, Some 0)
          | Some c \<Rightarrow> and_then (chunk_len mem c) (\<lambda>clen. Inr (Some (chunk_data c), Some (ucast clen))))
       else Inr (None, None))"

definition mf_get_version :: "u8 list \<Rightarrow> ptr \<Rightarrow> fault + u8" where
  "mf_get_version mem mf = (case mf of None \<Rightarrow> Inr 0 | Some env \<Rightarrow> env_version mem env)"

text \<open>
  What the parser takes from \<^verbatim>\<open>manifest_parser.h\<close> is a parameter of the model: the
  five chunk type tags and the layout of \<^verbatim>\<open>struct mf_app_data\<close> (where \<^verbatim>\<open>num_files\<close>,
  \<^verbatim>\<open>app_name_len\<close> and \<^verbatim>\<open>app_name\<close> lie in the DATA payload, and how many bytes
  \<^verbatim>\<open>num_files\<close> has). The parser itself fixes one fact of that layout: the constant 8
  in \<^verbatim>\<open>len - 8 - data->app_name_len\<close> is the size of what precedes \<^verbatim>\<open>app_name\<close>.
\<close>

record manifest_parser_h =
  TYPE_MANIFEST_NAME :: u8
  TYPE_MANIFEST_DATA :: u8
  TYPE_MANIFEST_PUBLIC_KEY :: u8
  TYPE_MANIFEST_CERTIFICATE :: u8
  TYPE_MANIFEST_SIGNATURE :: u8
  off_num_files :: nat
  wid_num_files :: nat
  off_app_name_len :: nat
  off_app_name :: nat

text \<open>
  Modelled from the spec: \<^verbatim>\<open>struct mf_files_ctx\<close> of \<^verbatim>\<open>manifest_parser.h\<close>, the cursor
  \<open>{ num_files_left: u32, bytes_left: usize, cursor }\<close>; \<^verbatim>\<open>size_t\<close> has 64 bits.
\<close>

record mf_files_ctx =
  num_files_left :: u32
  bytes_left :: size_t
  next_file :: ptr

fun le_nat :: "u8 list \<Rightarrow> nat" where
  "le_nat [] = 0"
| "le_nat (b # bs) = unat b + 256 * le_nat bs"

definition rd_le :: "u8 list \<Rightarrow> nat \<Rightarrow> nat \<Rightarrow> fault + nat" where
  "rd_le mem p w = (if p + w \<le> length mem then Inr (le_nat (take w (drop p mem))) else Inl OutOfBounds)"

definition app_num_files :: "manifest_parser_h \<Rightarrow> u8 list \<Rightarrow> nat \<Rightarrow> fault + u32" where
  "app_num_files h mem d = and_then (rd_le mem (d + off_num_files h) (wid_num_files h)) (\<lambda>n. Inr (of_nat n))"

definition app_name_len :: "manifest_parser_h \<Rightarrow> u8 list \<Rightarrow> nat \<Rightarrow> fault + u8" where
  "app_name_len h mem d = rd8 mem (d + off_app_name_len h)"

definition app_name :: "manifest_parser_h \<Rightarrow> nat \<Rightarrow> nat" where
  "app_name h d = d + off_app_name h"

text \<open>The local \<^verbatim>\<open>size_t len = 0\<close> after the call that may have stored into it.\<close>

definition len_after :: "size_t option \<Rightarrow> size_t" where
  "len_after stored = (case stored of None \<Rightarrow> 0 | Some l \<Rightarrow> l)"

definition mf_get_name :: "manifest_parser_h \<Rightarrow> u8 list \<Rightarrow> ptr \<Rightarrow> fault + ptr" where
  "mf_get_name h mem mf =
     and_then (mf_get_chunk_data mem mf (TYPE_MANIFEST_NAME h) True) (\<lambda>(data, stored).
       case data of
         None \<Rightarrow> Inr None
       | Some name \<Rightarrow>
           if len_after stored < 256 then
             and_then (strlen mem name) (\<lambda>n.
               if n + 1 = unat (len_after stored) then Inr (Some name) else Inr None)
           else Inr None)"

definition mf_get_app_data :: "manifest_parser_h \<Rightarrow> u8 list \<Rightarrow> ptr \<Rightarrow> fault + ptr" where
  "mf_get_app_data h mem mf =
     and_then (mf_get_chunk_data mem mf (TYPE_MANIFEST_DATA h) True) (\<lambda>(data, stored).
       case data of
         None \<Rightarrow> Inr None
       | Some d \<Rightarrow>
           and_then (strlen mem (app_name h d)) (\<lambda>n.
             and_then (app_name_len h mem d) (\<lambda>nl.
               if n + 1 = unat nl then Inr (Some d) else Inr None)))"

text \<open>
  \<^verbatim>\<open>mf_init_file_list_ctx\<close> returns its \<^verbatim>\<open>int\<close> and the context as the call leaves it
  (\<open>None\<close> for a \<^verbatim>\<open>NULL\<close> context argument).
\<close>

definition mf_init_file_list_ctx ::
  "manifest_parser_h \<Rightarrow> u8 list \<Rightarrow> ptr \<Rightarrow> mf_files_ctx option \<Rightarrow> fault + (int \<times> mf_files_ctx option)" where
  "mf_init_file_list_ctx h mem mf ctxo =
     (case ctxo of
        None \<Rightarrow> Inr (0, None)
      | Some ctx \<Rightarrow>
          and_then (mf_get_chunk_data mem mf (TYPE_MANIFEST_DATA h) True) (\<lambda>(data, stored).
            case data of
              None \<Rightarrow> Inr (0, Some ctx)
            | Some d \<Rightarrow>
                and_then (app_num_files h mem d) (\<lambda>nf.
                  and_then (app_name_len h mem d) (\<lambda>nl.
                    Inr (sint nf,
                         Some (ctx\<lparr>num_files_left := nf,
                                   bytes_left := len_after stored - 8 - ucast nl,
                                   next_file := Some (app_name h d + unat nl)\<rparr>))))))"

text \<open>What \<^verbatim>\<open>mf_get_next_file\<close> stores through \<^verbatim>\<open>size\<close>, \<^verbatim>\<open>digest_algo_id\<close> and \<^verbatim>\<open>digest\<close>.\<close>

record mf_file_out =
  out_size :: u32
  out_digest_algo_id :: u8
  out_digest :: nat

text \<open>
  \<^verbatim>\<open>mf_get_next_file\<close>. The \<^verbatim>\<open>mf\<close> argument is never used by the C function; the three
  booleans say whether \<^verbatim>\<open>digest_algo_id\<close>, \<^verbatim>\<open>digest\<close> and \<^verbatim>\<open>size\<close> are non-\<^verbatim>\<open>NULL\<close>.
  The result is the returned pointer, the context after the call and the values stored
  through the output pointers, if any were.
\<close>

definition mf_get_next_file ::
  "u8 list \<Rightarrow> ptr \<Rightarrow> mf_files_ctx option \<Rightarrow> bool \<Rightarrow> bool \<Rightarrow> bool
     \<Rightarrow> fault + (nat errptr \<times> mf_files_ctx option \<times> mf_file_out option)" where
  "mf_get_next_file mem mf ctxo algo_given digest_given size_given =
     (case ctxo of
        None \<Rightarrow> Inr (NULL, None, None)
      | Some ctx \<Rightarrow>
          (case next_file ctx of
             None \<Rightarrow> Inr (NULL, Some ctx, None)
           | Some nf \<Rightarrow>
               if num_files_left ctx > 0 \<and> bytes_left ctx > 0 \<and> algo_given \<and> digest_given then
                 and_then (rd8 mem nf) (\<lambda>filenamelen.
                   and_then (strlen mem (nf + 1)) (\<lambda>n.
                     if n + 1 = unat filenamelen then
                       and_then (rd32 mem (nf + unat filenamelen + 1)) (\<lambda>sz.
                         if \<not> size_given then Inl NullDeref
                         else
                           and_then (rd8 mem (nf + unat filenamelen + 5)) (\<lambda>algo.
                             let out = \<lparr>out_size = sz, out_digest_algo_id = algo,
                                        out_digest = nf + unat filenamelen + 6\<rparr>
                             in if unat algo \<ge> length digest_len then Inr (NULL, Some ctx, Some out)
                                else
                                  let entry_size = 1 + unat filenamelen + 5 + unat (digest_len ! unat algo)
                                  in Inr (PTR (nf + 1),
                                          Some (ctx\<lparr>num_files_left := num_files_left ctx - 1,
                                                    bytes_left := bytes_left ctx - of_nat entry_size,
                                                    next_file := Some (nf + entry_size)\<rparr>),
                                          Some out)))
                     else Inr (ERR_PTR (- EFAULT), Some ctx, None)))
               else Inr (NULL, Some ctx, None)))"

definition mf_get_data :: "manifest_parser_h \<Rightarrow> u8 list \<Rightarrow> ptr \<Rightarrow> bool \<Rightarrow> fault + (ptr \<times> size_t option)" where
  "mf_get_data h mem mf len_given = mf_get_chunk_data mem mf (TYPE_MANIFEST_DATA h) len_given"

definition mf_get_public_key :: "manifest_parser_h \<Rightarrow> u8 list \<Rightarrow> ptr \<Rightarrow> bool \<Rightarrow> fault + (ptr \<times> size_t option)" where
  "mf_get_public_key h mem mf len_given = mf_get_chunk_data mem mf (TYPE_MANIFEST_PUBLIC_KEY h) len_given"

definition mf_get_certificate :: "manifest_parser_h \<Rightarrow> u8 list \<Rightarrow> ptr \<Rightarrow> bool \<Rightarrow> fault + (ptr \<times> size_t option)" where
  "mf_get_certificate h mem mf len_given = mf_get_chunk_data mem mf (TYPE_MANIFEST_CERTIFICATE h) len_given"

definition mf_get_signature :: "manifest_parser_h \<Rightarrow> u8 list \<Rightarrow> ptr \<Rightarrow> bool \<Rightarrow> fault + (ptr \<times> size_t option)" where
  "mf_get_signature h mem mf len_given = mf_get_chunk_data mem mf (TYPE_MANIFEST_SIGNATURE h) len_given"

section \<open>Well-formed app-data records and repeated calls\<close>

text \<open>
  The file entries of a well-formed record, after the data model of the format: \<open>n\<close>
  entries lie back to back from offset \<open>p\<close> and fill exactly \<open>bytes\<close> bytes. An entry is
  \<open>name_len\<close>, a name of \<open>name_len\<close> bytes whose only NUL is its last byte, a 4-byte file
  size, an algorithm id inside the \<open>digest_len\<close> table and a digest of the length the
  table gives.
\<close>

fun wf_file_entries :: "u8 list \<Rightarrow> nat \<Rightarrow> nat \<Rightarrow> nat \<Rightarrow> bool" where
  "wf_file_entries mem p 0 bytes = (bytes = 0)"
| "wf_file_entries mem p (Suc n) bytes =
     (p < length mem \<and>
      (let name_len = unat (mem ! p) in
         1 \<le> name_len \<and> p + name_len + 6 \<le> length mem \<and>
         list_all (\<lambda>b. b \<noteq> 0) (take (name_len - 1) (drop (p + 1) mem)) \<and>
         mem ! (p + name_len) = 0 \<and>
         (let algo = unat (mem ! (p + name_len + 5)) in
            algo < length digest_len \<and>
            (let entry_size = 1 + name_len + 4 + 1 + unat (digest_len ! algo) in
               entry_size \<le> bytes \<and> p + entry_size \<le> length mem \<and>
               wf_file_entries mem (p + entry_size) n (bytes - entry_size)))))"

text \<open>
  A well-formed app-data record of \<open>len\<close> bytes at offset \<open>d\<close> with \<open>n\<close> files: the header
  fields lie in the blob, the application name is NUL-terminated at \<open>app_name_len - 1\<close>,
  and the file entries fill the rest of the payload.
\<close>

definition wf_app_data :: "manifest_parser_h \<Rightarrow> u8 list \<Rightarrow> nat \<Rightarrow> nat \<Rightarrow> nat \<Rightarrow> bool" where
  "wf_app_data h mem d len n =
     (rd_le mem (d + off_num_files h) (wid_num_files h) = Inr n \<and>
      d + off_app_name_len h < length mem \<and>
      (let name_len = unat (mem ! (d + off_app_name_len h)) in
         strlen mem (app_name h d) = Inr (name_len - 1) \<and> 1 \<le> name_len \<and>
         off_app_name h + name_len \<le> len \<and> len < 65536 \<and>
         wf_file_entries mem (app_name h d + name_len) n (len - off_app_name h - name_len)))"

text \<open>\<open>k\<close> successive calls of \<^verbatim>\<open>mf_get_next_file\<close> on one context, with the returned pointers in order.\<close>

fun mf_next_files ::
  "nat \<Rightarrow> u8 list \<Rightarrow> ptr \<Rightarrow> mf_files_ctx option \<Rightarrow> fault + (nat errptr list \<times> mf_files_ctx option)" where
  "mf_next_files 0 mem mf ctxo = Inr ([], ctxo)"
| "mf_next_files (Suc k) mem mf ctxo =
     and_then (mf_get_next_file mem mf ctxo True True True) (\<lambda>(r, ctxo', out).
       and_then (mf_next_files k mem mf ctxo') (\<lambda>(rs, ctxo''). Inr (r # rs, ctxo'')))"

definition is_filename :: "nat errptr \<Rightarrow> bool" where
  "is_filename r = (case r of PTR p \<Rightarrow> True | _ \<Rightarrow> False)"

section \<open>The digest engine\<close>

text \<open>
  \<^verbatim>\<open>file_hash_verify.c\<close> and \<^verbatim>\<open>sign_verify.c\<close> use declarations of \<^verbatim>\<open>app_auth.h\<close>,
  \<^verbatim>\<open>manifest_parser.h\<close> and the kernel's \<^verbatim>\<open>hash_info.h\<close>: the enumerators of
  \<^verbatim>\<open>enum hash_algo\<close>, the tables \<^verbatim>\<open>hash_algo_name\<close> and \<^verbatim>\<open>hash_digest_size\<close>, the
  \<^verbatim>\<open>DIGEST_ALGO_*\<close> constants, the two configured default algorithms, the enumerators
  of \<^verbatim>\<open>enum APP_AUTH_ERROR\<close> and \<^verbatim>\<open>PAGE_SIZE\<close>. They are parameters of the model.
\<close>

record app_auth_h =
  HASH_ALGO_MD5 :: int
  HASH_ALGO_SHA1 :: int
  HASH_ALGO_SHA224 :: int
  HASH_ALGO_SHA256 :: int
  HASH_ALGO_SHA384 :: int
  HASH_ALGO_SHA512 :: int
  HASH_ALGO__LAST :: int
  hash_algo_name :: "int \<Rightarrow> string"
  hash_digest_size :: "int \<Rightarrow> nat"
  DIGEST_ALGO_MD5 :: int
  DIGEST_ALGO_SHA1 :: int
  DIGEST_ALGO_SHA224 :: int
  DIGEST_ALGO_SHA384 :: int
  DIGEST_ALGO_SHA512 :: int
  manifest_default_hash_algo :: int
  default_sig_hash_algo :: int
  CERTIFICATE_FAILURE :: int
  CERTIFICATE_EXPIRED :: int
  SIGNATURE_FAILURE :: int
  HASH_FAILURE :: int
  PAGE_SIZE :: nat

definition EBADF :: int where
  "EBADF = 9"

definition ENOMEM :: int where
  "ENOMEM = 12"

definition EINVAL :: int where
  "EINVAL = 22"

text \<open>
  The kernel services behind \<^verbatim>\<open>file_hash_verify.c\<close>: the hash provider (a transform is
  a handle, the running hash state is opaque), the file system and the page allocator.
  Each call that can fail returns its error as the code sees it: \<open>Inl e\<close> is
  \<^verbatim>\<open>ERR_PTR(e)\<close>, \<^verbatim>\<open>kernel_read\<close> returns its count or a negative error with the bytes
  it read, \<open>kzalloc\<close> says whether the page buffer is granted.
\<close>

type_synonym crypto_shash = nat

record struct_file =
  f_mode_read :: bool
  f_inode :: nat

record 's kernel =
  crypto_alloc_shash :: "string \<Rightarrow> int + crypto_shash"
  crypto_shash_digestsize :: "crypto_shash \<Rightarrow> nat"
  crypto_shash_init :: "crypto_shash \<Rightarrow> int \<times> 's"
  crypto_shash_update :: "'s \<Rightarrow> u8 list \<Rightarrow> int \<times> 's"
  crypto_shash_final :: "'s \<Rightarrow> int \<times> u8 list"
  filp_open :: "string \<Rightarrow> int + struct_file"
  i_size_read :: "nat \<Rightarrow> int"
  kernel_read :: "struct_file \<Rightarrow> int \<Rightarrow> nat \<Rightarrow> int \<times> u8 list"
  kzalloc :: bool

record appauth_digest =
  algo :: int
  len :: nat
  digest :: "u8 list"

definition appauth_alloc_tfm :: "app_auth_h \<Rightarrow> 's kernel \<Rightarrow> int \<Rightarrow> int + crypto_shash" where
  "appauth_alloc_tfm h k a =
     (let a' = (if a < 0 \<or> a \<ge> HASH_ALGO__LAST h then manifest_default_hash_algo h else a)
      in crypto_alloc_shash k (hash_algo_name h a'))"

definition appauth_kernel_read :: "'s kernel \<Rightarrow> struct_file \<Rightarrow> int \<Rightarrow> nat \<Rightarrow> int \<times> u8 list" where
  "appauth_kernel_read k f offset count =
     (if \<not> f_mode_read f then (- EBADF, []) else kernel_read k f offset count)"

text \<open>
  The read loop of \<^verbatim>\<open>appauth_calc_file_hash_tfm\<close>: it returns \<open>rc\<close> and the hash state.
  Each turn adds a positive \<open>file_buf_len\<close> to \<open>offset\<close>, so the loop ends.
\<close>

function read_loop :: "app_auth_h \<Rightarrow> 's kernel \<Rightarrow> struct_file \<Rightarrow> int \<Rightarrow> int \<Rightarrow> int \<Rightarrow> 's \<Rightarrow> int \<times> 's" where
  "read_loop h k f i_size offset rc shash =
     (if offset < i_size then
        (let (file_buf_len, file_buf) = appauth_kernel_read k f offset (PAGE_SIZE h) in
           if file_buf_len < 0 then (file_buf_len, shash)
           else if file_buf_len = 0 then (rc, shash)
           else
             (let (rc', shash') = crypto_shash_update k shash (take (nat file_buf_len) file_buf) in
                if rc' \<noteq> 0 then (rc', shash')
                else read_loop h k f i_size (offset + file_buf_len) rc' shash'))
      else (rc, shash))"
  by pat_completeness auto
termination
  by (relation "measure (\<lambda>(h, k, f, i_size, offset, rc, shash). nat (i_size - offset))") auto

declare read_loop.simps [simp del]

text \<open>
  \<^verbatim>\<open>appauth_calc_file_hash_tfm\<close> returns its \<^verbatim>\<open>int\<close>, the digest structure and the file
  as the call leaves them. \<open>None\<close> is a \<^verbatim>\<open>NULL\<close> argument.
\<close>

definition appauth_calc_file_hash_tfm ::
  "app_auth_h \<Rightarrow> 's kernel \<Rightarrow> struct_file option \<Rightarrow> appauth_digest option \<Rightarrow> crypto_shash option
     \<Rightarrow> int \<times> appauth_digest option \<times> struct_file option" where
  "appauth_calc_file_hash_tfm h k fo ho tfmo =
     (case (fo, ho) of
        (Some f, Some hash) \<Rightarrow>
          (case tfmo of
             None \<Rightarrow> (- EFAULT, ho, fo)
           | Some tfm \<Rightarrow>
               let hash1 = hash\<lparr>len := crypto_shash_digestsize k tfm\<rparr>;
                   (rc, shash) = crypto_shash_init k tfm
               in if rc \<noteq> 0 then (- HASH_FAILURE h, Some hash1, fo)
                  else
                    let i_size = i_size_read k (f_inode f) in
                    if i_size = 0 then
                      (let (rc1, d) = crypto_shash_final k shash in
                         if rc1 \<noteq> 0 then (- HASH_FAILURE h, Some (hash1\<lparr>digest := d\<rparr>), fo)
                         else (rc1, Some (hash1\<lparr>digest := d\<rparr>), fo))
                    else if \<not> kzalloc k then (- ENOMEM, Some hash1, fo)
                    else
                      let (rc1, shash1) = read_loop h k (f\<lparr>f_mode_read := True\<rparr>) i_size 0 rc shash in
                      if rc1 = 0 then
                        (let (rc2, d) = crypto_shash_final k shash1 in
                           if rc2 \<noteq> 0 then (- HASH_FAILURE h, Some (hash1\<lparr>digest := d\<rparr>), fo)
                           else (rc2, Some (hash1\<lparr>digest := d\<rparr>), fo))
                      else (- HASH_FAILURE h, Some hash1, fo))
      | _ \<Rightarrow> (- EFAULT, ho, fo))"

definition appauth_calc_file_shash ::
  "app_auth_h \<Rightarrow> 's kernel \<Rightarrow> struct_file option \<Rightarrow> appauth_digest option
     \<Rightarrow> int \<times> appauth_digest option \<times> struct_file option" where
  "appauth_calc_file_shash h k fo ho =
     (case (fo, ho) of
        (Some f, Some hash) \<Rightarrow>
          (case appauth_alloc_tfm h k (algo hash) of
             Inl e \<Rightarrow> (- HASH_FAILURE h, ho, fo)
           | Inr tfm \<Rightarrow> appauth_calc_file_hash_tfm h k fo ho (Some tfm))
      | _ \<Rightarrow> (- EFAULT, ho, fo))"

definition process_file :: "app_auth_h \<Rightarrow> 's kernel \<Rightarrow> struct_file \<Rightarrow> appauth_digest \<Rightarrow> int \<times> appauth_digest" where
  "process_file h k f hash =
     (case appauth_calc_file_shash h k (Some f) (Some hash) of
        (result, Some hash', _) \<Rightarrow> (result, hash')
      | (result, None, _) \<Rightarrow> (result, hash))"

definition convert_hash_id :: "app_auth_h \<Rightarrow> u8 \<Rightarrow> int" where
  "convert_hash_id h digest_algo_id =
     (if DIGEST_ALGO_MD5 h \<noteq> 0 then HASH_ALGO_MD5 h
      else if DIGEST_ALGO_SHA1 h \<noteq> 0 then HASH_ALGO_SHA1 h
      else if DIGEST_ALGO_SHA224 h \<noteq> 0 then HASH_ALGO_SHA224 h
      else if DIGEST_ALGO_SHA384 h \<noteq> 0 then HASH_ALGO_SHA384 h
      else if DIGEST_ALGO_SHA512 h \<noteq> 0 then HASH_ALGO_SHA512 h
      else HASH_ALGO_SHA1 h)"

text \<open>
  \<^verbatim>\<open>compute_file_hash\<close>. The local \<^verbatim>\<open>struct appauth_digest hash\<close> starts with whatever the
  stack holds, the argument \<open>stack\<close>.
\<close>

definition compute_file_hash ::
  "app_auth_h \<Rightarrow> 's kernel \<Rightarrow> appauth_digest \<Rightarrow> string \<Rightarrow> u8 list \<Rightarrow> u8 \<Rightarrow> int" where
  "compute_file_hash h k stack filename dig digest_algo_id =
     (case filp_open k filename of
        Inl e \<Rightarrow> - EBADF
      | Inr f \<Rightarrow>
          let (ret, hash) = process_file h k f (stack\<lparr>algo := convert_hash_id h digest_algo_id\<rparr>)
          in if ret < 0 then ret
             else if take (hash_digest_size h (algo hash)) (digest hash)
                       = take (hash_digest_size h (algo hash)) dig then 0
             else - HASH_FAILURE h)"


section \<open>The trust verifier\<close>

text \<open>
  The parts of the kernel's certificate and signature structures that
  \<^verbatim>\<open>sign_verify.c\<close> reads or fills (a public key and a key identifier are handles), and
  the services it calls: the X.509 parser, the keyring check, the clock
  (\<^verbatim>\<open>ts.tv_sec\<close> after \<^verbatim>\<open>getnstimeofday64\<close>) and the signature verification.
\<close>

record x509_certificate =
  pub :: "nat option"
  sig_auth_ids_1 :: nat
  valid_from :: int
  valid_to :: int

record public_key_signature =
  pks_hash_algo :: string
  pks_pkey_algo :: string
  pks_digest :: "u8 list"
  pks_digest_size :: nat
  pks_s :: "u8 list"
  pks_s_size :: int

record x509_services =
  x509_cert_parse :: "u8 list \<Rightarrow> int \<Rightarrow> x509_certificate option"
  verify_x509_cert_against_manifest_keyring :: "nat \<Rightarrow> nat \<Rightarrow> int"
  getnstimeofday64 :: int
  public_key_verify_signature :: "nat \<Rightarrow> public_key_signature \<Rightarrow> int"

text \<open>\<^verbatim>\<open>CONFIG_MANIFEST_HARDCODE\<close> selects the key usage bit.\<close>

definition ATTESTATION_KEY_USAGE_BIT :: "bool \<Rightarrow> nat" where
  "ATTESTATION_KEY_USAGE_BIT config_manifest_hardcode = (if config_manifest_hardcode then 40 else 47)"

definition verify_manifest_signature ::
  "app_auth_h \<Rightarrow> x509_services \<Rightarrow> nat \<Rightarrow> appauth_digest \<Rightarrow> u8 list option \<Rightarrow> int \<Rightarrow> int" where
  "verify_manifest_signature h x key hash sig sig_len =
     (if algo hash = HASH_ALGO_SHA1 h \<or> algo hash = HASH_ALGO_SHA256 h then
        (case sig of
           None \<Rightarrow> - ENOMEM
         | Some s \<Rightarrow>
             public_key_verify_signature x key
               \<lparr>pks_hash_algo = (if algo hash = HASH_ALGO_SHA1 h then ''sha1'' else ''sha256''),
                pks_pkey_algo = ''rsa'',
                pks_digest = digest hash,
                pks_digest_size = len hash,
                pks_s = s,
                pks_s_size = sig_len\<rparr>)
      else - EINVAL)"

definition calc_hash_tfm ::
  "'s kernel \<Rightarrow> appauth_digest option \<Rightarrow> crypto_shash option \<Rightarrow> u8 list option \<Rightarrow> int
     \<Rightarrow> int \<times> appauth_digest option" where
  "calc_hash_tfm k ho tfmo data data_len =
     (case (ho, data) of
        (Some hash, Some bytes) \<Rightarrow>
          (case tfmo of
             None \<Rightarrow> (- EFAULT, ho)
           | Some tfm \<Rightarrow>
               let hash1 = hash\<lparr>len := crypto_shash_digestsize k tfm\<rparr>;
                   (rc, shash) = crypto_shash_init k tfm
               in if rc \<noteq> 0 then (rc, Some hash1)
                  else
                    let (rc1, shash1) = crypto_shash_update k shash (take (nat data_len) bytes)
                    in if rc1 = 0 then
                         (let (rc2, d) = crypto_shash_final k shash1
                          in (rc2, Some (hash1\<lparr>digest := d\<rparr>)))
                       else (rc1, Some hash1))
      | _ \<Rightarrow> (- EFAULT, ho))"

definition calc_shash ::
  "app_auth_h \<Rightarrow> 's kernel \<Rightarrow> appauth_digest option \<Rightarrow> u8 list option \<Rightarrow> int
     \<Rightarrow> int \<times> appauth_digest option" where
  "calc_shash h k ho data data_len =
     (case (ho, data) of
        (Some hash, Some bytes) \<Rightarrow>
          (case appauth_alloc_tfm h k (algo hash) of
             Inl e \<Rightarrow> (e, ho)
           | Inr tfm \<Rightarrow> calc_hash_tfm k ho (Some tfm) data data_len)
      | _ \<Rightarrow> (- EFAULT, ho))"

definition verify_cert_validity :: "x509_services \<Rightarrow> x509_certificate \<Rightarrow> int" where
  "verify_cert_validity x cert =
     (let ts_tv_sec = getnstimeofday64 x
      in if ts_tv_sec < valid_from cert \<or> ts_tv_sec > valid_to cert then - EFAULT else 0)"

text \<open>
  \<^verbatim>\<open>verify_manifest\<close> returns its verdict together with the steps it went through, in
  order, so that what a call did not reach can be stated.
\<close>

datatype step =
  X509_CERT_PARSE | KEYRING_CHECK | CERT_VALIDITY | CALC_SHASH | VERIFY_SIGNATURE | X509_FREE_CERTIFICATE

definition verify_manifest ::
  "app_auth_h \<Rightarrow> 's kernel \<Rightarrow> x509_services \<Rightarrow> bool \<Rightarrow> appauth_digest
     \<Rightarrow> u8 list option \<Rightarrow> u8 list \<Rightarrow> u8 list option \<Rightarrow> int \<Rightarrow> int \<Rightarrow> int \<Rightarrow> int \<times> step list" where
  "verify_manifest h k x config_manifest_hardcode stack sig cert data sig_len cert_len data_len =
     (case x509_cert_parse x cert cert_len of
        None \<Rightarrow> (- CERTIFICATE_FAILURE h, [X509_CERT_PARSE])
      | Some x509cert \<Rightarrow>
          (case pub x509cert of
             None \<Rightarrow> (- CERTIFICATE_FAILURE h, [X509_CERT_PARSE, X509_FREE_CERTIFICATE])
           | Some key \<Rightarrow>
               if verify_x509_cert_against_manifest_keyring x (sig_auth_ids_1 x509cert)
                    (ATTESTATION_KEY_USAGE_BIT config_manifest_hardcode) \<noteq> 0
               then (- CERTIFICATE_FAILURE h, [X509_CERT_PARSE, KEYRING_CHECK, X509_FREE_CERTIFICATE])
               else if verify_cert_validity x x509cert \<noteq> 0
               then (- CERTIFICATE_EXPIRED h,
                     [X509_CERT_PARSE, KEYRING_CHECK, CERT_VALIDITY, X509_FREE_CERTIFICATE])
               else
                 (case calc_shash h k (Some (stack\<lparr>algo := default_sig_hash_algo h\<rparr>)) data data_len of
                    (rc, ho) \<Rightarrow>
                      if rc < 0
                      then (- SIGNATURE_FAILURE h,
                            [X509_CERT_PARSE, KEYRING_CHECK, CERT_VALIDITY, CALC_SHASH,
                             X509_FREE_CERTIFICATE])
                      else if verify_manifest_signature h x key
                                (case ho of Some hash \<Rightarrow> hash
                                          | None \<Rightarrow> stack\<lparr>algo := default_sig_hash_algo h\<rparr>)
                                sig sig_len \<noteq> 0
                      then (- SIGNATURE_FAILURE h,
                            [X509_CERT_PARSE, KEYRING_CHECK, CERT_VALIDITY, CALC_SHASH,
                             VERIFY_SIGNATURE, X509_FREE_CERTIFICATE])
                      else (0,
                            [X509_CERT_PARSE, KEYRING_CHECK, CERT_VALIDITY, CALC_SHASH,
                             VERIFY_SIGNATURE, X509_FREE_CERTIFICATE]))))"

section \<open>Example inputs\<close>

text \<open>A file entry named \<open>app\<close> of size 100 with algorithm id \<open>a\<close> and \<open>n\<close> digest bytes.\<close>

definition entry_app :: "u8 \<Rightarrow> nat \<Rightarrow> u8 list" where
  "entry_app a n = [4, 0x61, 0x70, 0x70, 0, 100, 0, 0, 0, a] @ replicate n 0xAB"

text \<open>The same entry with the NUL of its name one byte early.\<close>

definition entry_bad_name :: "u8 list" where
  "entry_bad_name = [4, 0x61, 0x70, 0, 0x70, 100, 0, 0, 0, 0] @ replicate 20 0xAB"

text \<open>
  A complete file entry (name length 4, SHA-224 slot, 28 digest bytes) without a single
  NUL byte: its name is not terminated, and nothing behind it in the blob ends it.
\<close>

definition entry_unterminated :: "u8 list" where
  "entry_unterminated = [4, 0x61, 0x70, 0x70, 0x70, 100, 1, 1, 1, 1] @ replicate 28 0xAB"

text \<open>
  An envelope that declares 3 bytes of chunk area and holds one chunk of type 7 whose
  header declares 1 byte of payload: the chunk needs 4 bytes.
\<close>

definition blob_overrun :: "u8 list" where
  "blob_overrun = [1, 3, 0, 7, 1, 0]"

text \<open>One possible layout of \<^verbatim>\<open>struct mf_app_data\<close> and of the chunk tags, for the examples.\<close>

definition demo_layout :: manifest_parser_h where
  "demo_layout = \<lparr>TYPE_MANIFEST_NAME = 0, TYPE_MANIFEST_DATA = 1, TYPE_MANIFEST_PUBLIC_KEY = 2,
     TYPE_MANIFEST_CERTIFICATE = 3, TYPE_MANIFEST_SIGNATURE = 4,
     off_num_files = 6, wid_num_files = 1, off_app_name_len = 7, off_app_name = 8\<rparr>"

text \<open>A manifest with one DATA chunk: application \<open>app\<close>, two file entries (SHA-1 and SHA-256 slots).\<close>

definition demo_blob :: "u8 list" where
  "demo_blob = [1, 87, 0] @ [1, 84, 0] @ [0, 0, 0, 0, 0, 0, 2, 4] @ [0x61, 0x70, 0x70, 0]
                 @ entry_app 0 20 @ entry_app 2 32"

text \<open>
  A manifest whose DATA chunk declares 13 bytes: the header, the name and the first byte
  of its one file entry. The rest of the entry lies behind the chunk.
\<close>

definition blob_partial :: "u8 list" where
  "blob_partial = [1, 16, 0] @ [1, 13, 0] @ [0, 0, 0, 0, 0, 0, 1, 4] @ [0x61, 0x70, 0x70, 0]
                 @ entry_app 0 20"

definition ctx_zero :: mf_files_ctx where
  "ctx_zero = \<lparr>num_files_left = 0, bytes_left = 0, next_file = None\<rparr>"


text \<open>
  An instance of the header declarations: the enumerators of the kernel's
  \<^verbatim>\<open>enum hash_algo\<close>, manifest ids in the order of the \<open>digest_len\<close> table with MD5
  behind them, SHA-256 as both defaults.
\<close>

definition demo_decls :: app_auth_h where
  "demo_decls = \<lparr>HASH_ALGO_MD5 = 1, HASH_ALGO_SHA1 = 2, HASH_ALGO_SHA224 = 7, HASH_ALGO_SHA256 = 4,
     HASH_ALGO_SHA384 = 5, HASH_ALGO_SHA512 = 6, HASH_ALGO__LAST = 18,
     hash_algo_name = (\<lambda>a. if a = 1 then ''md5'' else if a = 2 then ''sha1''
                            else if a = 4 then ''sha256'' else ''other''),
     hash_digest_size = (\<lambda>a. if a = 1 then 16 else if a = 2 then 20 else if a = 4 then 32 else 64),
     DIGEST_ALGO_MD5 = 5, DIGEST_ALGO_SHA1 = 0, DIGEST_ALGO_SHA224 = 1, DIGEST_ALGO_SHA384 = 3,
     DIGEST_ALGO_SHA512 = 4,
     manifest_default_hash_algo = 4, default_sig_hash_algo = 4,
     CERTIFICATE_FAILURE = 2, CERTIFICATE_EXPIRED = 3, SIGNATURE_FAILURE = 5, HASH_FAILURE = 8,
     PAGE_SIZE = 4096\<rparr>"

text \<open>
  A stand-in kernel: three transforms, a hash state that collects its input, a digest
  that depends on the transform and on the input, and one file \<open>/bin/app\<close> of three bytes.
\<close>

definition demo_kernel :: "(nat \<times> u8 list) kernel" where
  "demo_kernel = \<lparr>
     crypto_alloc_shash = (\<lambda>name. if name = ''md5'' then Inr 11 else if name = ''sha1'' then Inr 12
                                  else if name = ''sha256'' then Inr 14 else Inl (- 2)),
     crypto_shash_digestsize = (\<lambda>t. if t = 11 then 16 else if t = 12 then 20 else 32),
     crypto_shash_init = (\<lambda>t. (0, (t, []))),
     crypto_shash_update = (\<lambda>st d. (0, (fst st, snd st @ d))),
     crypto_shash_final = (\<lambda>st. (0, replicate (if fst st = 11 then 16 else if fst st = 12 then 20 else 32)
                                              (of_nat (fst st) + sum_list (snd st)))),
     filp_open = (\<lambda>name. if name = ''/bin/app'' then Inr \<lparr>f_mode_read = True, f_inode = 5\<rparr>
                          else Inl (- 2)),
     i_size_read = (\<lambda>i. 3),
     kernel_read = (\<lambda>f offset count. if offset = 0 then (3, [1, 2, 3]) else (0, [])),
     kzalloc = True\<rparr>"

text \<open>
  Stand-in certificate services: a certificate valid from second 1000 to second 2000,
  accepted by the keyring, a clock at second 3000, and every signature verifies.
\<close>

definition demo_x509 :: x509_services where
  "demo_x509 = \<lparr>
     x509_cert_parse = (\<lambda>cert cert_len.
        Some \<lparr>pub = Some 1, sig_auth_ids_1 = 7, valid_from = 1000, valid_to = 2000\<rparr>),
     verify_x509_cert_against_manifest_keyring = (\<lambda>akid bit. 0),
     getnstimeofday64 = 3000,
     public_key_verify_signature = (\<lambda>key pks. 0)\<rparr>"

definition demo_stack :: appauth_digest where
  "demo_stack = \<lparr>algo = 0, len = 0, digest = []\<rparr>"

section \<open>Basic facts\<close>

lemma and_then_simps [simp]:
  "and_then (Inl e) f = Inl e" "and_then (Inr x) f = f x"
  by (simp_all add: and_then_def)

lemma and_then_Inr_iff:
  "and_then m f = Inr y \<longleftrightarrow> (\<exists>x. m = Inr x \<and> f x = Inr y)"
  by (cases m) simp_all

lemma replicate_numeral_unfold: "replicate (numeral k) x = x # replicate (pred_numeral k) x"
  by (simp add: numeral_eq_Suc)

lemma first_nul_less: "first_nul xs = Some k \<Longrightarrow> k < length xs"
  by (induction xs arbitrary: k) (auto split: if_splits)

lemma strlen_in_bounds: "strlen mem p = Inr n \<Longrightarrow> p + n < length mem"
  using first_nul_less by (fastforce simp: strlen_def split: option.splits)

lemma first_nul_at:
  "list_all (\<lambda>b. b \<noteq> 0) (take k xs) \<Longrightarrow> k < length xs \<Longrightarrow> xs ! k = 0 \<Longrightarrow> first_nul xs = Some k"
proof (induction xs arbitrary: k)
  case Nil
  then show ?case by simp
next
  case (Cons x xs)
  then show ?case by (cases k) auto
qed

text \<open>
  \<^verbatim>\<open>strlen\<close> returns \<open>k\<close> exactly when the byte at distance \<open>k\<close> is the first NUL and
  lies in the blob.
\<close>

lemma first_nul_Some_iff:
  "first_nul xs = Some k \<longleftrightarrow>
     k < length xs \<and> xs ! k = 0 \<and> list_all (\<lambda>b. b \<noteq> 0) (take k xs)"
proof
  show "first_nul xs = Some k \<Longrightarrow>
          k < length xs \<and> xs ! k = 0 \<and> list_all (\<lambda>b. b \<noteq> 0) (take k xs)"
  proof (induction xs arbitrary: k)
    case Nil
    then show ?case by simp
  next
    case (Cons x xs)
    then show ?case by (cases "x = 0") auto
  qed
qed (simp add: first_nul_at)

lemma strlen_Inr_iff:
  "strlen mem p = Inr k \<longleftrightarrow>
     p + k < length mem \<and> mem ! (p + k) = 0 \<and> list_all (\<lambda>b. b \<noteq> 0) (take k (drop p mem))"
proof -
  have "strlen mem p = Inr k \<longleftrightarrow> first_nul (drop p mem) = Some k"
    by (simp add: strlen_def split: option.splits)
  also have "\<dots> \<longleftrightarrow> k < length (drop p mem) \<and> drop p mem ! k = 0
                     \<and> list_all (\<lambda>b. b \<noteq> 0) (take k (drop p mem))"
    by (rule first_nul_Some_iff)
  also have "\<dots> \<longleftrightarrow> p + k < length mem \<and> mem ! (p + k) = 0
                     \<and> list_all (\<lambda>b. b \<noteq> 0) (take k (drop p mem))"
    by (auto simp: less_diff_conv add.commute)
  finally show ?thesis .
qed

section \<open>Chunk lookup\<close>

text \<open>What the bound test of the scan guarantees for a chunk it returns.\<close>

lemma mf_get_chunk_scan_bound:
  "mf_get_chunk_scan mem env elen ctype i pos = Inr (Some c) \<Longrightarrow>
     \<exists>pos' clen. c = env_data env + unat pos' \<and> pos' < elen \<and> chunk_type mem c = Inr ctype \<and>
        chunk_len mem c = Inr clen \<and> unat pos' + unat clen + 3 \<le> unat elen + 1"
proof (induction mem env elen ctype i pos rule: mf_get_chunk_scan.induct)
  case (1 mem env elen ctype i pos)
  let ?c = "env_data env + unat pos"
  have unfold: "mf_get_chunk_scan mem env elen ctype i pos = Inr (Some c)"
    by (fact "1.prems")
  show ?case
  proof (cases "pos < elen \<and> i < MAX_CHUNKS")
    case False
    with unfold show ?thesis
      by (simp add: mf_get_chunk_scan.simps)
  next
    case True
    with unfold obtain ty clen where ty: "chunk_type mem ?c = Inr ty"
      and clen: "chunk_len mem ?c = Inr clen"
      by (subst (asm) mf_get_chunk_scan.simps) (auto split: sum.splits)
    show ?thesis
    proof (cases "ty = ctype")
      case True
      with \<open>pos < elen \<and> i < MAX_CHUNKS\<close> unfold ty clen show ?thesis
        by (subst (asm) mf_get_chunk_scan.simps) (auto split: if_splits)
    next
      case False
      with \<open>pos < elen \<and> i < MAX_CHUNKS\<close> unfold ty clen
      have "mf_get_chunk_scan mem env elen ctype (i + 1) (pos + clen + 3) = Inr (Some c)"
        by (subst (asm) mf_get_chunk_scan.simps) simp
      with "1.IH" [OF \<open>pos < elen \<and> i < MAX_CHUNKS\<close> ty clen False] show ?thesis .
    qed
  qed
qed

text \<open>
  C1. A chunk of the requested type whose header-declared length puts its end past the
  envelope's declared length must make \<^verbatim>\<open>mf_get_chunk\<close> return \<^verbatim>\<open>NULL\<close>. The code
  compares the chunk's end with \<^verbatim>\<open>env->len + 1\<close>: on \<open>blob_overrun\<close>, whose envelope
  declares 3 bytes, the chunk of type 7 ends at 4, and the lookup returns it; the payload
  view handed out by \<^verbatim>\<open>mf_get_chunk_data\<close> starts at offset 6 with length 1, behind the
  last byte of the 6-byte blob.
\<close>

theorem C1_chunk_one_byte_past_envelope:
  "env_len blob_overrun 0 = Inr 3 \<and>
   mf_get_chunk blob_overrun (Some 0) 7 = Inr (Some 3) \<and>
   chunk_len blob_overrun 3 = Inr 1 \<and>
   mf_get_chunk_data blob_overrun (Some 0) 7 True = Inr (Some 6, Some 1) \<and>
   length blob_overrun = 6"
  by (simp add: blob_overrun_def mf_get_chunk_data_def mf_get_chunk_def mf_get_chunk_scan.simps
      env_len_def env_data_def chunk_type_def chunk_len_def chunk_data_def rd8_def rd16_def
      MAX_CHUNKS_def)

section \<open>Null and empty blobs\<close>

text \<open>
  C4, as the claim states it, fails on a blob of length 0: the accessors take no length
  and read the envelope header of every non-\<^verbatim>\<open>NULL\<close> blob.
\<close>

theorem C4_empty_blob_is_read:
  "mf_get_version [] (Some 0) = Inl OutOfBounds \<and>
   mf_get_chunk [] (Some 0) 1 = Inl OutOfBounds \<and>
   mf_get_signature demo_layout [] (Some 0) True = Inl OutOfBounds \<and>
   mf_init_file_list_ctx demo_layout [] (Some 0) (Some ctx_zero) = Inl OutOfBounds"
  by (simp add: mf_get_version_def env_version_def rd8_def mf_get_chunk_def env_len_def rd16_def
      mf_get_signature_def mf_get_chunk_data_def mf_init_file_list_ctx_def)

text \<open>
  C4, amended. On a \<^verbatim>\<open>NULL\<close> blob every accessor that looks at the blob returns absent
  (version 0, no chunk, no data and a stored length of 0, a file count of 0 with the
  context untouched), whatever the memory holds, the empty memory included.
  \<^verbatim>\<open>mf_get_next_file\<close> does not look at its blob argument at all.
\<close>

theorem C4_null_blob_absent:
  "mf_get_version mem None = Inr 0 \<and>
   mf_get_chunk mem None ctype = Inr None \<and>
   mf_get_chunk_data mem None ctype len_given = Inr (None, if len_given then Some 0 else None) \<and>
   mf_get_name h mem None = Inr None \<and>
   mf_get_app_data h mem None = Inr None \<and>
   mf_get_data h mem None len_given = Inr (None, if len_given then Some 0 else None) \<and>
   mf_get_public_key h mem None len_given = Inr (None, if len_given then Some 0 else None) \<and>
   mf_get_certificate h mem None len_given = Inr (None, if len_given then Some 0 else None) \<and>
   mf_get_signature h mem None len_given = Inr (None, if len_given then Some 0 else None) \<and>
   mf_init_file_list_ctx h mem None ctxo = Inr (0, ctxo) \<and>
   mf_get_next_file mem None ctxo ag dg sg = mf_get_next_file mem mf ctxo ag dg sg"
  by (simp add: mf_get_version_def mf_get_chunk_def mf_get_chunk_data_def mf_get_name_def
      mf_get_app_data_def mf_get_data_def mf_get_public_key_def mf_get_certificate_def
      mf_get_signature_def mf_init_file_list_ctx_def mf_get_next_file_def split: option.splits)

section \<open>The file-entry iterator\<close>

text \<open>With a counter at zero the call returns \<^verbatim>\<open>NULL\<close> and touches nothing.\<close>

lemma mf_get_next_file_zero_counters:
  "num_files_left ctx = 0 \<or> bytes_left ctx = 0 \<Longrightarrow>
     mf_get_next_file mem mf (Some ctx) ag dg sg = Inr (NULL, Some ctx, None)"
  by (auto simp: mf_get_next_file_def split: option.splits)

text \<open>
  A call that returns a filename has consumed
  \<open>entry_size = 1 + name_len + 4 + 1 + digest_len algo\<close> bytes: it decrements the file
  counter, subtracts \<open>entry_size\<close> from \<open>bytes_left\<close> modulo \<open>2 ^ 64\<close> and moves the
  cursor by \<open>entry_size\<close>.
\<close>

lemma mf_get_next_file_advance:
  "mf_get_next_file mem mf (Some ctx) ag dg sg = Inr (PTR p, ctxo', out) \<Longrightarrow>
     \<exists>nf name_len a.
        next_file ctx = Some nf \<and> rd8 mem nf = Inr name_len \<and>
        rd8 mem (nf + unat name_len + 5) = Inr a \<and> unat a < length digest_len \<and>
        ctxo' = Some (ctx\<lparr>num_files_left := num_files_left ctx - 1,
                          bytes_left := bytes_left ctx
                             - of_nat (1 + unat name_len + 4 + 1 + unat (digest_len ! unat a)),
                          next_file := Some (nf + (1 + unat name_len + 4 + 1
                             + unat (digest_len ! unat a)))\<rparr>)"
  by (auto simp: mf_get_next_file_def and_then_Inr_iff Let_def split: option.splits if_splits)

text \<open>
  Called with a context and output pointers, \<^verbatim>\<open>mf_get_next_file\<close> returns \<^verbatim>\<open>NULL\<close> in
  three situations only: a counter is zero, the cursor is \<^verbatim>\<open>NULL\<close>, or the entry's
  algorithm id, which it has stored, is outside the \<open>digest_len\<close> table.
\<close>

lemma mf_get_next_file_NULL_cases:
  "mf_get_next_file mem mf (Some ctx) True True sg = Inr (NULL, ctxo', out) \<Longrightarrow>
     num_files_left ctx = 0 \<or> bytes_left ctx = 0 \<or> next_file ctx = None \<or>
     (\<exists>out'. out = Some out' \<and> length digest_len \<le> unat (out_digest_algo_id out'))"
  by (auto simp: mf_get_next_file_def and_then_Inr_iff Let_def word_gt_0
      split: option.splits if_splits)

text \<open>
  C3. The iterator must reject a final entry that \<open>bytes_left\<close> does not cover. The code
  compares \<open>bytes_left\<close> with zero only. \<open>blob_partial\<close> declares a DATA chunk that ends
  one byte into its file entry: \<^verbatim>\<open>mf_init_file_list_ctx\<close> leaves \<open>bytes_left = 1\<close>, and
  the next call returns the filename of the 30-byte entry, reads its size, id and digest
  pointer from behind the chunk, and leaves \<open>bytes_left = 2 ^ 64 - 29\<close>.
\<close>

theorem C3_partial_entry_is_consumed:
  "mf_init_file_list_ctx demo_layout blob_partial (Some 0) (Some ctx_zero)
     = Inr (1, Some \<lparr>num_files_left = 1, bytes_left = 1, next_file = Some 18\<rparr>) \<and>
   mf_get_next_file blob_partial (Some 0)
       (Some \<lparr>num_files_left = 1, bytes_left = 1, next_file = Some 18\<rparr>) True True True
     = Inr (PTR 19,
            Some \<lparr>num_files_left = 0, bytes_left = 2 ^ 64 - 29, next_file = Some 48\<rparr>,
            Some \<lparr>out_size = 100, out_digest_algo_id = 0, out_digest = 28\<rparr>)"
proof -
  have "mf_get_chunk_data blob_partial (Some 0) (TYPE_MANIFEST_DATA demo_layout) True
          = Inr (Some 6, Some 13)"
    by (simp add: blob_partial_def demo_layout_def entry_app_def mf_get_chunk_data_def
        mf_get_chunk_def mf_get_chunk_scan.simps env_len_def env_data_def chunk_type_def
        chunk_len_def chunk_data_def rd8_def rd16_def MAX_CHUNKS_def)
  then have "mf_init_file_list_ctx demo_layout blob_partial (Some 0) (Some ctx_zero)
     = Inr (1, Some \<lparr>num_files_left = 1, bytes_left = 1, next_file = Some 18\<rparr>)"
    by (simp add: mf_init_file_list_ctx_def app_num_files_def app_name_len_def app_name_def
        rd_le_def rd8_def len_after_def ctx_zero_def)
       (simp add: blob_partial_def demo_layout_def entry_app_def)
  moreover have "mf_get_next_file blob_partial (Some 0)
       (Some \<lparr>num_files_left = 1, bytes_left = 1, next_file = Some 18\<rparr>) True True True
     = Inr (PTR 19,
            Some \<lparr>num_files_left = 0, bytes_left = 2 ^ 64 - 29, next_file = Some 48\<rparr>,
            Some \<lparr>out_size = 100, out_digest_algo_id = 0, out_digest = 28\<rparr>)"
    by (simp add: mf_get_next_file_def blob_partial_def entry_app_def rd8_def rd32_def strlen_def
        digest_len_def Let_def)
  ultimately show ?thesis by simp
qed

text \<open>
  C5, as the claim states it, fails: for an entry with algorithm id 5 the call returns
  \<^verbatim>\<open>NULL\<close>, the value it also returns at the end of the iteration, not a value of its
  own.
\<close>

theorem C5_bad_algo_returns_end_value:
  "mf_get_next_file (entry_app 5 20) None
       (Some \<lparr>num_files_left = 1, bytes_left = 30, next_file = Some 0\<rparr>) True True True
     = Inr (NULL, Some \<lparr>num_files_left = 1, bytes_left = 30, next_file = Some 0\<rparr>,
            Some \<lparr>out_size = 100, out_digest_algo_id = 5, out_digest = 10\<rparr>) \<and>
   mf_get_next_file (entry_app 5 20) None
       (Some \<lparr>num_files_left = 0, bytes_left = 0, next_file = Some 30\<rparr>) True True True
     = Inr (NULL, Some \<lparr>num_files_left = 0, bytes_left = 0, next_file = Some 30\<rparr>, None)"
  by (simp add: mf_get_next_file_def entry_app_def rd8_def rd32_def strlen_def digest_len_def Let_def)

text \<open>
  C5, amended. For an entry with a valid filename and an algorithm id outside the
  \<open>digest_len\<close> table, \<^verbatim>\<open>mf_get_next_file\<close> returns \<^verbatim>\<open>NULL\<close> (the return value of the end
  of the iteration, not \<^verbatim>\<open>ERR_PTR(-EFAULT)\<close>), leaves the iterator where it was, with
  both counters still nonzero, and has stored the entry's own id through
  \<^verbatim>\<open>digest_algo_id\<close>: no default algorithm takes its place.
\<close>

theorem C5_bad_algo_null:
  assumes "next_file ctx = Some nf" and "num_files_left ctx \<noteq> 0" and "bytes_left ctx \<noteq> 0"
    and "strlen mem (nf + 1) = Inr n" and "n + 1 = unat (mem ! nf)"
    and "rd32 mem (nf + unat (mem ! nf) + 1) = Inr sz"
    and "rd8 mem (nf + unat (mem ! nf) + 5) = Inr a"
    and "unat a \<ge> length digest_len"
  shows "mf_get_next_file mem mf (Some ctx) True True True =
           Inr (NULL, Some ctx,
                Some \<lparr>out_size = sz, out_digest_algo_id = a, out_digest = nf + unat (mem ! nf) + 6\<rparr>)"
proof -
  from assms(4) have "nf < length mem"
    using strlen_in_bounds by fastforce
  then have "rd8 mem nf = Inr (mem ! nf)"
    by (simp add: rd8_def)
  with assms show ?thesis
    by (simp add: mf_get_next_file_def word_gt_0 Let_def)
qed

theorem C5_bad_algo_null_witness:
  "mf_get_next_file (entry_app 5 20) None
       (Some \<lparr>num_files_left = 1, bytes_left = 30, next_file = Some 0\<rparr>) True True True
     = Inr (NULL, Some \<lparr>num_files_left = 1, bytes_left = 30, next_file = Some 0\<rparr>,
            Some \<lparr>out_size = 100, out_digest_algo_id = 5, out_digest = 10\<rparr>)"
  using C5_bad_algo_null [of "\<lparr>num_files_left = 1, bytes_left = 30, next_file = Some 0\<rparr>" 0
      "entry_app 5 20" 3 100 5 None]
  by (simp add: entry_app_def strlen_def rd32_def rd8_def digest_len_def)




text \<open>
  C10. A call of \<^verbatim>\<open>mf_get_next_file\<close> that does not return a filename (it returns
  \<^verbatim>\<open>NULL\<close> or an error pointer) leaves the iterator exactly as it was; a call that
  returns a filename changes it.
\<close>

theorem C10_only_success_moves_iterator:
  assumes "mf_get_next_file mem mf ctxo ag dg sg = Inr (r, ctxo', out)"
  shows "((\<forall>p. r \<noteq> PTR p) \<longrightarrow> ctxo' = ctxo) \<and> ((\<exists>p. r = PTR p) \<longrightarrow> ctxo' \<noteq> ctxo)"
  using assms
  by (auto simp: mf_get_next_file_def and_then_Inr_iff Let_def split: option.splits if_splits
      dest: arg_cong [where f = next_file])

theorem C10_only_success_moves_iterator_witness:
  "mf_get_next_file entry_bad_name None
       (Some \<lparr>num_files_left = 1, bytes_left = 30, next_file = Some 0\<rparr>) True True True
     = Inr (ERR_PTR (- 14), Some \<lparr>num_files_left = 1, bytes_left = 30, next_file = Some 0\<rparr>, None) \<and>
   mf_get_next_file (entry_app 0 20) None
       (Some \<lparr>num_files_left = 1, bytes_left = 30, next_file = Some 0\<rparr>) True True True
     = Inr (PTR 1, Some \<lparr>num_files_left = 0, bytes_left = 0, next_file = Some 30\<rparr>,
            Some \<lparr>out_size = 100, out_digest_algo_id = 0, out_digest = 10\<rparr>) \<and>
   Some \<lparr>num_files_left = 0, bytes_left = 0, next_file = Some 30\<rparr>
     \<noteq> Some \<lparr>num_files_left = 1, bytes_left = (30 :: size_t), next_file = Some 0\<rparr>"
proof -
  have a: "mf_get_next_file entry_bad_name None
       (Some \<lparr>num_files_left = 1, bytes_left = 30, next_file = Some 0\<rparr>) True True True
     = Inr (ERR_PTR (- 14), Some \<lparr>num_files_left = 1, bytes_left = 30, next_file = Some 0\<rparr>, None)"
    by (simp add: mf_get_next_file_def entry_bad_name_def rd8_def strlen_def EFAULT_def)
  have b: "mf_get_next_file (entry_app 0 20) None
       (Some \<lparr>num_files_left = 1, bytes_left = 30, next_file = Some 0\<rparr>) True True True
     = Inr (PTR 1, Some \<lparr>num_files_left = 0, bytes_left = 0, next_file = Some 30\<rparr>,
            Some \<lparr>out_size = 100, out_digest_algo_id = 0, out_digest = 10\<rparr>)"
    by (simp add: mf_get_next_file_def entry_app_def rd8_def rd32_def strlen_def digest_len_def Let_def)
  from C10_only_success_moves_iterator [OF a] C10_only_success_moves_iterator [OF b] a b
  show ?thesis by simp
qed

section \<open>Iterating over a well-formed record\<close>

lemma wf_entries_bytes: "wf_file_entries mem p n bytes \<Longrightarrow> 27 * n \<le> bytes"
proof (induction n arbitrary: p bytes)
  case 0
  then show ?case by simp
next
  case (Suc n)
  let ?nl = "unat (mem ! p)"
  let ?esz = "1 + ?nl + 4 + 1 + unat (digest_len ! unat (mem ! (p + ?nl + 5)))"
  from Suc.prems have a: "unat (mem ! (p + ?nl + 5)) < 5" and nl: "1 \<le> ?nl"
    and le: "?esz \<le> bytes" and wf: "wf_file_entries mem (p + ?esz) n (bytes - ?esz)"
    by (simp_all add: Let_def digest_len_def)
  have "20 \<le> unat (digest_len ! k)" if "k < 5" for k
  proof -
    from that have "k = 0 \<or> k = 1 \<or> k = 2 \<or> k = 3 \<or> k = 4" by arith
    then show ?thesis by (auto simp: digest_len_def)
  qed
  with a have "27 \<le> ?esz" using nl by fastforce
  moreover from Suc.IH [OF wf] have "27 * n \<le> bytes - ?esz" .
  ultimately show ?case using le by simp
qed

text \<open>One call on a well-formed entry: it returns the name and moves to the next entry.\<close>

lemma next_file_step:
  assumes wf: "wf_file_entries mem p (Suc n) bytes"
    and n: "Suc n < 2 ^ 32" and b: "bytes < 2 ^ 64"
  shows "\<exists>esz out. esz \<le> bytes \<and> wf_file_entries mem (p + esz) n (bytes - esz) \<and>
           mf_get_next_file mem mf
              (Some \<lparr>num_files_left = of_nat (Suc n), bytes_left = of_nat bytes, next_file = Some p\<rparr>)
              True True True
            = Inr (PTR (p + 1),
                   Some \<lparr>num_files_left = of_nat n, bytes_left = of_nat (bytes - esz),
                         next_file = Some (p + esz)\<rparr>, Some out)"
proof -
  let ?nl = "unat (mem ! p)"
  let ?algo = "mem ! (p + ?nl + 5)"
  let ?esz = "1 + ?nl + 4 + 1 + unat (digest_len ! unat ?algo)"
  from wf have p: "p < length mem" and nl: "1 \<le> ?nl" and len: "p + ?nl + 6 \<le> length mem"
    and nz: "list_all (\<lambda>b. b \<noteq> 0) (take (?nl - 1) (drop (p + 1) mem))"
    and z: "mem ! (p + ?nl) = 0" and a: "unat ?algo < length digest_len"
    and le: "?esz \<le> bytes" and wf': "wf_file_entries mem (p + ?esz) n (bytes - ?esz)"
    by (simp_all add: Let_def)
  have r1: "rd8 mem p = Inr (mem ! p)"
    using p by (simp add: rd8_def)
  have "first_nul (drop (p + 1) mem) = Some (?nl - 1)"
  proof (rule first_nul_at [OF nz])
    show "?nl - 1 < length (drop (p + 1) mem)" using len nl by simp
    show "drop (p + 1) mem ! (?nl - 1) = 0" using z len nl by simp
  qed
  then have r2: "strlen mem (p + 1) = Inr (?nl - 1)"
    by (simp add: strlen_def)
  obtain sz where r3: "rd32 mem (p + ?nl + 1) = Inr sz"
    using len by (simp add: rd32_def)
  have r4: "rd8 mem (p + ?nl + 5) = Inr ?algo"
    using len by (simp add: rd8_def)
  have "unat (of_nat (Suc n) :: u32) = Suc n"
    using n by (simp add: unat_of_nat del: of_nat_Suc)
  then have c1: "(0 :: u32) < of_nat (Suc n)"
    by (simp add: word_less_nat_alt del: of_nat_Suc)
  have "unat (of_nat bytes :: size_t) = bytes"
    using b by (simp add: unat_of_nat)
  moreover have "0 < bytes" using le by simp
  ultimately have c2: "(0 :: size_t) < of_nat bytes"
    by (simp add: word_less_nat_alt)
  have s1: "(of_nat (Suc n) :: u32) - 1 = of_nat n"
    by simp
  have s2: "(of_nat bytes :: size_t) - of_nat ?esz = of_nat (bytes - ?esz)"
    using le by (simp add: of_nat_diff)
  have "mf_get_next_file mem mf
              (Some \<lparr>num_files_left = of_nat (Suc n), bytes_left = of_nat bytes, next_file = Some p\<rparr>)
              True True True
            = Inr (PTR (p + 1),
                   Some \<lparr>num_files_left = of_nat n, bytes_left = of_nat (bytes - ?esz),
                         next_file = Some (p + ?esz)\<rparr>,
                   Some \<lparr>out_size = sz, out_digest_algo_id = ?algo, out_digest = p + ?nl + 6\<rparr>)"
    unfolding mf_get_next_file_def using c1 c2 r1 r2 r3 r4 nl a s1 s2
    by (simp add: Let_def del: of_nat_Suc of_nat_add of_nat_diff)
  with le wf' show ?thesis by blast
qed

text \<open>As many calls as there are entries: each returns a name, and both counters end at zero.\<close>

lemma next_files_run:
  assumes "wf_file_entries mem p n bytes" and "n < 2 ^ 32" and "bytes < 2 ^ 64"
  shows "\<exists>rs. mf_next_files n mem mf
                (Some \<lparr>num_files_left = of_nat n, bytes_left = of_nat bytes, next_file = Some p\<rparr>)
              = Inr (rs, Some \<lparr>num_files_left = 0, bytes_left = 0, next_file = Some (p + bytes)\<rparr>)
            \<and> length rs = n \<and> list_all is_filename rs"
  using assms
proof (induction n arbitrary: p bytes)
  case 0
  then show ?case by simp
next
  case (Suc n)
  from next_file_step [OF Suc.prems(1) Suc.prems(2) Suc.prems(3), of mf]
  obtain esz out where le: "esz \<le> bytes"
    and wf': "wf_file_entries mem (p + esz) n (bytes - esz)"
    and step: "mf_get_next_file mem mf
              (Some \<lparr>num_files_left = of_nat (Suc n), bytes_left = of_nat bytes, next_file = Some p\<rparr>)
              True True True
            = Inr (PTR (p + 1),
                   Some \<lparr>num_files_left = of_nat n, bytes_left = of_nat (bytes - esz),
                         next_file = Some (p + esz)\<rparr>, Some out)"
    by blast
  from Suc.prems have "n < 2 ^ 32" and "bytes - esz < 2 ^ 64" by simp_all
  from Suc.IH [OF wf' this]
  obtain rs where run: "mf_next_files n mem mf
                (Some \<lparr>num_files_left = of_nat n, bytes_left = of_nat (bytes - esz),
                      next_file = Some (p + esz)\<rparr>)
              = Inr (rs, Some \<lparr>num_files_left = 0, bytes_left = 0,
                              next_file = Some (p + esz + (bytes - esz))\<rparr>)"
    and rs: "length rs = n" "list_all is_filename rs"
    by blast
  have "p + esz + (bytes - esz) = p + bytes" using le by simp
  with run have run': "mf_next_files n mem mf
                (Some \<lparr>num_files_left = of_nat n, bytes_left = of_nat (bytes - esz),
                      next_file = Some (p + esz)\<rparr>)
              = Inr (rs, Some \<lparr>num_files_left = 0, bytes_left = 0, next_file = Some (p + bytes)\<rparr>)"
    by simp
  have "mf_next_files (Suc n) mem mf
                (Some \<lparr>num_files_left = of_nat (Suc n), bytes_left = of_nat bytes, next_file = Some p\<rparr>)
              = Inr (PTR (p + 1) # rs,
                     Some \<lparr>num_files_left = 0, bytes_left = 0, next_file = Some (p + bytes)\<rparr>)"
    by (simp only: mf_next_files.simps step run' and_then_simps prod.case)
  moreover have "length (PTR (p + 1) # rs) = Suc n" "list_all is_filename (PTR (p + 1) # rs)"
    using rs by (simp_all add: is_filename_def)
  ultimately show ?case by blast
qed



section \<open>The digest engine and the trust verifier\<close>

text \<open>
  C2. \<^verbatim>\<open>compute_file_hash\<close> must hash the file with the algorithm that the entry's
  \<^verbatim>\<open>digest_algo_id\<close> names and succeed exactly when that digest equals the recorded one.
  \<^verbatim>\<open>convert_hash_id\<close> tests the constants \<^verbatim>\<open>DIGEST_ALGO_*\<close> instead of comparing its
  argument with them: whatever their values, the algorithm it returns and the verdict of
  \<^verbatim>\<open>compute_file_hash\<close> do not depend on \<^verbatim>\<open>digest_algo_id\<close>. With the example
  declarations the file \<open>/bin/app\<close>, recorded with id 2 and with the digest that the
  SHA-256 transform gives for it, is hashed with MD5 and fails with \<^verbatim>\<open>-HASH_FAILURE\<close>.
\<close>

theorem C2_digest_algo_id_is_ignored:
  "convert_hash_id h a = convert_hash_id h b \<and>
   compute_file_hash h k stack filename dig a = compute_file_hash h k stack filename dig b \<and>
   process_file demo_decls demo_kernel \<lparr>f_mode_read = True, f_inode = 5\<rparr>
       (demo_stack\<lparr>algo := HASH_ALGO_SHA256 demo_decls\<rparr>)
     = (0, \<lparr>algo = 4, len = 32, digest = replicate 32 20\<rparr>) \<and>
   convert_hash_id demo_decls 2 = HASH_ALGO_MD5 demo_decls \<and>
   compute_file_hash demo_decls demo_kernel demo_stack ''/bin/app'' (replicate 32 20) 2
     = - HASH_FAILURE demo_decls"
proof -
  let ?f = "\<lparr>f_mode_read = True, f_inode = 5\<rparr>"
  have sha256_id: "HASH_ALGO_SHA256 demo_decls = 4" and md5_id: "HASH_ALGO_MD5 demo_decls = 1"
    and fail: "HASH_FAILURE demo_decls = 8"
    and size: "hash_digest_size demo_decls 1 = 16"
    by (simp_all add: demo_decls_def)
  have alloc: "appauth_alloc_tfm demo_decls demo_kernel 4 = Inr 14"
    "appauth_alloc_tfm demo_decls demo_kernel 1 = Inr 11"
    by (simp_all add: appauth_alloc_tfm_def demo_decls_def demo_kernel_def)
  have init: "crypto_shash_init demo_kernel t = (0, (t, []))" for t
    by (simp add: demo_kernel_def)
  have dsize: "crypto_shash_digestsize demo_kernel 14 = 32" "crypto_shash_digestsize demo_kernel 11 = 16"
    by (simp_all add: demo_kernel_def)
  have isize: "i_size_read demo_kernel 5 = 3" and alloc_ok: "kzalloc demo_kernel"
    by (simp_all add: demo_kernel_def)
  have final: "crypto_shash_final demo_kernel (14, [1, 2, 3]) = (0, replicate 32 20)"
    "crypto_shash_final demo_kernel (11, [1, 2, 3]) = (0, replicate 16 17)"
    by (simp_all add: demo_kernel_def)
  have loop: "read_loop demo_decls demo_kernel ?f 3 0 0 (t, []) = (0, (t, [1, 2, 3]))" for t :: nat
    by (simp add: read_loop.simps appauth_kernel_read_def demo_kernel_def demo_decls_def)
  have sha256: "process_file demo_decls demo_kernel ?f (demo_stack\<lparr>algo := HASH_ALGO_SHA256 demo_decls\<rparr>)
     = (0, \<lparr>algo = 4, len = 32, digest = replicate 32 20\<rparr>)"
    by (simp add: process_file_def appauth_calc_file_shash_def appauth_calc_file_hash_tfm_def
        demo_stack_def sha256_id alloc init dsize isize alloc_ok final loop Let_def
)
  have md5: "process_file demo_decls demo_kernel ?f (demo_stack\<lparr>algo := HASH_ALGO_MD5 demo_decls\<rparr>)
     = (0, \<lparr>algo = 1, len = 16, digest = replicate 16 17\<rparr>)"
    by (simp add: process_file_def appauth_calc_file_shash_def appauth_calc_file_hash_tfm_def
        demo_stack_def md5_id alloc init dsize isize alloc_ok final loop Let_def)
  have conv: "convert_hash_id demo_decls 2 = HASH_ALGO_MD5 demo_decls"
    by (simp add: convert_hash_id_def demo_decls_def)
  have "filp_open demo_kernel ''/bin/app'' = Inr ?f"
    by (simp add: demo_kernel_def)
  with md5 conv have "compute_file_hash demo_decls demo_kernel demo_stack ''/bin/app'' (replicate 32 20) 2
     = - HASH_FAILURE demo_decls"
    by (simp add: compute_file_hash_def fail size)
  moreover have "convert_hash_id h a = convert_hash_id h b"
    by (simp add: convert_hash_id_def)
  moreover have "compute_file_hash h k stack filename dig a = compute_file_hash h k stack filename dig b"
    unfolding compute_file_hash_def convert_hash_id_def by (rule refl)
  ultimately show ?thesis
    using sha256 conv by (intro conjI)
qed

text \<open>
  C8. For a certificate that parses, carries a public key and is accepted by the
  keyring: if the clock is outside \<open>[valid_from, valid_to]\<close>, \<^verbatim>\<open>verify_manifest\<close> returns
  \<^verbatim>\<open>-CERTIFICATE_EXPIRED\<close>, whatever the signature check would say, and neither the
  digest of the signed data nor the signature verification is reached.
\<close>

theorem C8_certificate_expired:
  assumes "x509_cert_parse x cert cert_len = Some c" and "pub c = Some key"
    and "verify_x509_cert_against_manifest_keyring x (sig_auth_ids_1 c)
           (ATTESTATION_KEY_USAGE_BIT config_manifest_hardcode) = 0"
    and "getnstimeofday64 x < valid_from c \<or> valid_to c < getnstimeofday64 x"
  shows "fst (verify_manifest h k x config_manifest_hardcode stack sig cert data sig_len cert_len data_len)
           = - CERTIFICATE_EXPIRED h \<and>
         CALC_SHASH \<notin> set (snd (verify_manifest h k x config_manifest_hardcode stack sig cert data
                                   sig_len cert_len data_len)) \<and>
         VERIFY_SIGNATURE \<notin> set (snd (verify_manifest h k x config_manifest_hardcode stack sig cert data
                                   sig_len cert_len data_len))"
proof -
  from assms(4) have "verify_cert_validity x c = - EFAULT"
    by (auto simp: verify_cert_validity_def Let_def)
  with assms(1-3) have "verify_manifest h k x config_manifest_hardcode stack sig cert data
                           sig_len cert_len data_len
      = (- CERTIFICATE_EXPIRED h, [X509_CERT_PARSE, KEYRING_CHECK, CERT_VALIDITY, X509_FREE_CERTIFICATE])"
    by (simp add: verify_manifest_def EFAULT_def)
  then show ?thesis by simp
qed

theorem C8_certificate_expired_witness:
  "x509_cert_parse demo_x509 [] 0
     = Some \<lparr>pub = Some 1, sig_auth_ids_1 = 7, valid_from = 1000, valid_to = 2000\<rparr> \<and>
   verify_x509_cert_against_manifest_keyring demo_x509 7 (ATTESTATION_KEY_USAGE_BIT False) = 0 \<and>
   (2000 :: int) < getnstimeofday64 demo_x509 \<and>
   public_key_verify_signature demo_x509 1
       \<lparr>pks_hash_algo = ''sha256'', pks_pkey_algo = ''rsa'', pks_digest = [], pks_digest_size = 32,
        pks_s = [], pks_s_size = 0\<rparr> = 0 \<and>
   fst (verify_manifest demo_decls demo_kernel demo_x509 False demo_stack (Some []) [] (Some []) 0 0 0)
     = - 3 \<and>
   CALC_SHASH \<notin> set (snd (verify_manifest demo_decls demo_kernel demo_x509 False demo_stack
                             (Some []) [] (Some []) 0 0 0)) \<and>
   VERIFY_SIGNATURE \<notin> set (snd (verify_manifest demo_decls demo_kernel demo_x509 False demo_stack
                             (Some []) [] (Some []) 0 0 0))"
  using C8_certificate_expired [of demo_x509 "[]" 0
      "\<lparr>pub = Some 1, sig_auth_ids_1 = 7, valid_from = 1000, valid_to = 2000\<rparr>" 1 False
      demo_decls demo_kernel demo_stack "Some []" "Some []" 0 0]
  by (simp add: demo_x509_def demo_decls_def)

text \<open>
  C9. At the engine boundary an algorithm id out of range (negative, or at least
  \<^verbatim>\<open>HASH_ALGO__LAST\<close>) is replaced by \<^verbatim>\<open>manifest_default_hash_algo\<close>, and the transform
  is allocated for that algorithm as for any other request. The parser has the other
  policy: a file entry that \<^verbatim>\<open>mf_get_next_file\<close> returns carries the entry's own id, and
  that id lies inside the \<open>digest_len\<close> table.
\<close>

theorem C9_alloc_tfm_substitutes_default:
  "(a < 0 \<or> a \<ge> HASH_ALGO__LAST h \<longrightarrow>
      appauth_alloc_tfm h k a = crypto_alloc_shash k (hash_algo_name h (manifest_default_hash_algo h))) \<and>
   (mf_get_next_file mem mf (Some ctx) ag dg sg = Inr (PTR p, ctxo', out) \<longrightarrow>
      (\<exists>nf name_len out'.
          next_file ctx = Some nf \<and> rd8 mem nf = Inr name_len \<and> out = Some out' \<and>
          rd8 mem (nf + unat name_len + 5) = Inr (out_digest_algo_id out') \<and>
          unat (out_digest_algo_id out') < length digest_len))"
  by (auto simp: appauth_alloc_tfm_def mf_get_next_file_def and_then_Inr_iff Let_def
      split: option.splits if_splits)

theorem C9_alloc_tfm_substitutes_default_witness:
  "HASH_ALGO__LAST demo_decls \<le> 99 \<and>
   appauth_alloc_tfm demo_decls demo_kernel 99 = Inr 14 \<and>
   crypto_alloc_shash demo_kernel
     (hash_algo_name demo_decls (manifest_default_hash_algo demo_decls)) = Inr 14 \<and>
   mf_get_next_file (entry_app 0 20) None
       (Some \<lparr>num_files_left = 1, bytes_left = 30, next_file = Some 0\<rparr>) True True True
     = Inr (PTR 1, Some \<lparr>num_files_left = 0, bytes_left = 0, next_file = Some 30\<rparr>,
            Some \<lparr>out_size = 100, out_digest_algo_id = 0, out_digest = 10\<rparr>) \<and>
   rd8 (entry_app 0 20) 9 = Inr 0"
proof -
  have a: "mf_get_next_file (entry_app 0 20) None
       (Some \<lparr>num_files_left = 1, bytes_left = 30, next_file = Some 0\<rparr>) True True True
     = Inr (PTR 1, Some \<lparr>num_files_left = 0, bytes_left = 0, next_file = Some 30\<rparr>,
            Some \<lparr>out_size = 100, out_digest_algo_id = 0, out_digest = 10\<rparr>)"
    by (simp add: mf_get_next_file_def entry_app_def rd8_def rd32_def strlen_def digest_len_def Let_def)
  have b: "HASH_ALGO__LAST demo_decls \<le> 99"
    by (simp add: demo_decls_def)
  have c: "crypto_alloc_shash demo_kernel
     (hash_algo_name demo_decls (manifest_default_hash_algo demo_decls)) = Inr 14"
    by (simp add: demo_decls_def demo_kernel_def)
  have d: "rd8 (entry_app 0 20) 9 = Inr 0"
    by (simp add: entry_app_def rd8_def)
  from C9_alloc_tfm_substitutes_default [of 99 demo_decls demo_kernel "entry_app 0 20" None
      "\<lparr>num_files_left = 1, bytes_left = 30, next_file = Some 0\<rparr>" True True True 1
      "Some \<lparr>num_files_left = 0, bytes_left = 0, next_file = Some 30\<rparr>"
      "Some \<lparr>out_size = 100, out_digest_algo_id = 0, out_digest = 10\<rparr>"] a b c d
  show ?thesis by simp
qed

end
